theory Spec2Isabelle
  imports Complex_Main "HOL-Library.Sublist"
begin

section \<open>Tensors and the host operations the optimizer calls\<close>

text \<open>
  The optimizer of \<^verbatim>\<open>src/optimizer/DiffGrad.py\<close> is written against TensorFlow tensors and
  variables. A tensor is modelled by the list of its rows along the first dimension, each row
  one number (a rank-1 tensor); the numbers are reals, so \<open>+\<close>, \<open>*\<close>, \<open>/\<close>, \<open>sqrt\<close> and
  \<open>exp\<close> are the exact operations that the floating-point ones approximate. Shapes are kept:
  every binary tensor operation broadcasts as TensorFlow does (equal lengths, or one side of
  length 1) and raises otherwise, and every write to a variable checks the shape.
  Where a floating-point operation would give an infinity or a NaN (a division by zero, the
  root of a negative number) the exact operation has no such value, so the model says
  nothing there.
\<close>

type_synonym tensor = "real list"

datatype error = ValueError | LookupError | InvalidArgumentError

definition bind_result :: "error + 'a \<Rightarrow> ('a \<Rightarrow> error + 'b) \<Rightarrow> error + 'b" where
  "bind_result r f = (case r of Inl e \<Rightarrow> Inl e | Inr x \<Rightarrow> f x)"

definition broadcast_op :: "(real \<Rightarrow> real \<Rightarrow> real) \<Rightarrow> tensor \<Rightarrow> tensor \<Rightarrow> error + tensor" where
  "broadcast_op f xs ys =
     (if length xs = length ys then Inr (map2 f xs ys)
      else if length xs = 1 then Inr (map (f (hd xs)) ys)
      else if length ys = 1 then Inr (map (\<lambda>x. f x (hd ys)) xs)
      else Inl InvalidArgumentError)"

definition tf_subtract :: "tensor \<Rightarrow> tensor \<Rightarrow> error + tensor" where
  "tf_subtract = broadcast_op (\<lambda>a b. a - b)"

definition tf_multiply :: "tensor \<Rightarrow> tensor \<Rightarrow> error + tensor" where
  "tf_multiply = broadcast_op (\<lambda>a b. a * b)"

definition tf_divide :: "tensor \<Rightarrow> tensor \<Rightarrow> error + tensor" where
  "tf_divide = broadcast_op (\<lambda>a b. a / b)"

definition tf_maximum :: "tensor \<Rightarrow> tensor \<Rightarrow> error + tensor" where
  "tf_maximum = broadcast_op max"

text \<open>Writes to a variable: \<^verbatim>\<open>assign\<close>, \<^verbatim>\<open>assign_add\<close> and \<^verbatim>\<open>assign_sub\<close> take a tensor
  of the variable's own shape.\<close>

definition assign :: "tensor \<Rightarrow> tensor \<Rightarrow> error + tensor" where
  "assign var new = (if length new = length var then Inr new else Inl ValueError)"

definition assign_add :: "tensor \<Rightarrow> tensor \<Rightarrow> error + tensor" where
  "assign_add var delta =
     (if length delta = length var then Inr (map2 (\<lambda>a b. a + b) var delta)
      else Inl InvalidArgumentError)"

definition assign_sub :: "tensor \<Rightarrow> tensor \<Rightarrow> error + tensor" where
  "assign_sub var delta =
     (if length delta = length var then Inr (map2 (\<lambda>a b. a - b) var delta)
      else Inl InvalidArgumentError)"

text \<open>Scatter writes go through the (index, row) pairs in order; an index outside the
  variable's rows raises. A repeated index accumulates under \<^verbatim>\<open>scatter_add\<close> and the last
  row wins under \<^verbatim>\<open>scatter_update\<close>.\<close>

fun scatter :: "(real \<Rightarrow> real \<Rightarrow> real) \<Rightarrow> tensor \<Rightarrow> (int \<times> real) list \<Rightarrow> error + tensor" where
  "scatter f t [] = Inr t"
| "scatter f t ((i, x) # ixs) =
     (if 0 \<le> i \<and> i < int (length t) then scatter f (t[nat i := f (t ! nat i) x]) ixs
      else Inl InvalidArgumentError)"

definition scatter_add :: "tensor \<Rightarrow> tensor \<Rightarrow> int list \<Rightarrow> error + tensor" where
  "scatter_add var vals indices =
     (if length vals = length indices then scatter (\<lambda>old x. old + x) var (zip indices vals)
      else Inl InvalidArgumentError)"

definition scatter_update :: "tensor \<Rightarrow> tensor \<Rightarrow> int list \<Rightarrow> error + tensor" where
  "scatter_update var vals indices =
     (if length vals = length indices then scatter (\<lambda>old x. x) var (zip indices vals)
      else Inl InvalidArgumentError)"

section \<open>The optimizer's data\<close>

text \<open>A model variable has an identity (what \<^verbatim>\<open>_var_key\<close> returns), a name and its current
  value. A gradient is a dense tensor or \<^verbatim>\<open>tf.IndexedSlices(values, indices)\<close>.\<close>

record variable =
  var_key :: nat
  var_name :: string
  var_value :: tensor

datatype gradient = Dense tensor | IndexedSlices tensor "int list"

text \<open>The attributes of a \<^verbatim>\<open>DiffGrad\<close> object. An attribute that the source tests with
  \<^verbatim>\<open>hasattr\<close> or reads with \<^verbatim>\<open>getattr(..., [])\<close> holds \<open>False\<close> or \<open>[]\<close> while it is
  absent. The exclusion list holds \<^verbatim>\<open>tf.Variable\<close> objects: each entry is the identity of
  one, and the value the object holds is read from the heap when the list is searched.\<close>

record DiffGrad =
  learning_rate :: real
  weight_decay :: real
  beta_1 :: real
  beta_2 :: real
  epsilon :: real
  amsgrad :: bool
  iterations :: nat
  built :: bool
  index_dict :: "nat \<rightharpoonup> nat"
  momentums :: "tensor list"
  velocities :: "tensor list"
  prev_gradients :: "tensor list"
  velocity_hats :: "tensor list"
  exclude_from_weight_decay_vars :: "nat list"
  exclude_from_weight_decay_names :: "string list"

section \<open>Construction\<close>

text \<open>A keyword argument is \<open>None\<close> when the caller leaves it out and takes its default
  then. \<^verbatim>\<open>weight_decay\<close> may also be passed as Python's \<^verbatim>\<open>None\<close>: \<open>Some None\<close>.\<close>

definition keyword :: "'a \<Rightarrow> 'a option \<Rightarrow> 'a" where
  "keyword dflt arg = (case arg of None \<Rightarrow> dflt | Some a \<Rightarrow> a)"

definition DiffGrad_init ::
  "real option \<Rightarrow> real option option \<Rightarrow> real option \<Rightarrow> real option \<Rightarrow> real option \<Rightarrow>
   bool option \<Rightarrow> error + DiffGrad" where
  "DiffGrad_init learning_rate_arg weight_decay_arg beta_1_arg beta_2_arg epsilon_arg amsgrad_arg =
     (case keyword (Some (4 / 1000)) weight_decay_arg of
        None \<Rightarrow> Inl ValueError
      | Some wd \<Rightarrow>
          Inr \<lparr> learning_rate = keyword (1 / 1000) learning_rate_arg,
                weight_decay = wd,
                beta_1 = keyword (9 / 10) beta_1_arg,
                beta_2 = keyword (999 / 1000) beta_2_arg,
                epsilon = keyword (1 / 10 ^ 16) epsilon_arg,
                amsgrad = keyword False amsgrad_arg,
                iterations = 0,
                built = False,
                index_dict = Map.empty,
                momentums = [],
                velocities = [],
                prev_gradients = [],
                velocity_hats = [],
                exclude_from_weight_decay_vars = [],
                exclude_from_weight_decay_names = [] \<rparr>)"

section \<open>Build\<close>

text \<open>\<^verbatim>\<open>super().build\<close> of the host class returns at once on a built optimizer and
  otherwise records the position of every variable of the list under its identity.\<close>

definition build_index_dict :: "variable list \<Rightarrow> (nat \<rightharpoonup> nat)" where
  "build_index_dict var_list =
     fold (\<lambda>(i, var) d. d(var_key var \<mapsto> i)) (enumerate 0 var_list) Map.empty"

definition add_variable_from_reference :: "variable \<Rightarrow> tensor" where
  "add_variable_from_reference model_variable = replicate (length (var_value model_variable)) 0"

definition build :: "DiffGrad \<Rightarrow> variable list \<Rightarrow> DiffGrad" where
  "build self var_list =
     (let self1 = (if built self then self else self\<lparr>index_dict := build_index_dict var_list\<rparr>)
      in if built self1 then self1
         else
           let self2 = self1\<lparr>built := True,
                         momentums := map add_variable_from_reference var_list,
                         velocities := map add_variable_from_reference var_list,
                         prev_gradients := map add_variable_from_reference var_list\<rparr>
           in if amsgrad self2
              then self2\<lparr>velocity_hats := map add_variable_from_reference var_list\<rparr>
              else self2)"

section \<open>Weight-decay exclusion\<close>

text \<open>\<^verbatim>\<open>x or []\<close> of the source.\<close>

definition or_empty :: "'a list option \<Rightarrow> 'a list" where
  "or_empty arg = (case arg of None \<Rightarrow> [] | Some xs \<Rightarrow> if xs \<noteq> [] then xs else [])"

text \<open>The method mutates the object or raises; it returns the object as the call leaves it
  together with the error raised, if any.\<close>

definition exclude_from_weight_decay ::
  "DiffGrad \<Rightarrow> nat list option \<Rightarrow> string list option \<Rightarrow> DiffGrad \<times> error option" where
  "exclude_from_weight_decay self var_list var_names =
     (if built self then (self, Some ValueError)
      else (self\<lparr>exclude_from_weight_decay_vars := or_empty var_list,
                 exclude_from_weight_decay_names := or_empty var_names\<rparr>, None))"

text \<open>The heap gives, by identity, the value each \<^verbatim>\<open>tf.Variable\<close> object holds now.\<close>

type_synonym heap = "nat \<Rightarrow> tensor"

text \<open>Line 103, \<^verbatim>\<open>variable in exclude_from_weight_decay\<close>, is Python's search of a list: the
  entries are tried in order, each first by identity and then with \<^verbatim>\<open>==\<close>, whose result is
  converted with \<^verbatim>\<open>bool\<close>. On \<^verbatim>\<open>tf.Variable\<close> objects \<^verbatim>\<open>==\<close> compares the values entry by
  entry with broadcasting, giving the single entry \<^verbatim>\<open>False\<close> where the shapes do not broadcast,
  and \<^verbatim>\<open>bool\<close> of a tensor raises when the tensor has more than one entry and is
  \<^verbatim>\<open>False\<close> on a tensor with no entry. (This is eager execution; inside a traced function
  \<^verbatim>\<open>bool\<close> raises on every tensor.)\<close>

definition tf_equal :: "tensor \<Rightarrow> tensor \<Rightarrow> bool list" where
  "tf_equal xs ys =
     (if length xs = length ys then map2 (\<lambda>x y. x = y) xs ys
      else if length xs = 1 then map (\<lambda>y. hd xs = y) ys
      else if length ys = 1 then map (\<lambda>x. x = hd ys) xs
      else [False])"

definition tensor_bool :: "bool list \<Rightarrow> error + bool" where
  "tensor_bool bs = (case bs of [] \<Rightarrow> Inr False | [b] \<Rightarrow> Inr b | _ \<Rightarrow> Inl ValueError)"

fun list_contains :: "heap \<Rightarrow> nat list \<Rightarrow> variable \<Rightarrow> error + bool" where
  "list_contains heap [] variable = Inr False"
| "list_contains heap (item # items) variable =
     (if item = var_key variable then Inr True
      else bind_result (tensor_bool (tf_equal (heap item) (var_value variable))) (\<lambda>equal.
             if equal then Inr True else list_contains heap items variable))"

text \<open>\<^verbatim>\<open>re.search\<close> is the standard library's; the model takes it as the parameter
  \<open>re_search pattern string\<close>, true when a match is found.\<close>

fun names_loop :: "(string \<Rightarrow> string \<Rightarrow> bool) \<Rightarrow> string list \<Rightarrow> string \<Rightarrow> bool" where
  "names_loop re_search [] vname = True"
| "names_loop re_search (name # names) vname =
     (if re_search name vname then False else names_loop re_search names vname)"

definition use_weight_decay ::
  "heap \<Rightarrow> (string \<Rightarrow> string \<Rightarrow> bool) \<Rightarrow> DiffGrad \<Rightarrow> variable \<Rightarrow> error + bool" where
  "use_weight_decay heap re_search self variable =
     bind_result (list_contains heap (exclude_from_weight_decay_vars self) variable) (\<lambda>found.
       if found then Inr False
       else Inr (names_loop re_search (exclude_from_weight_decay_names self) (var_name variable)))"

section \<open>The update step\<close>

text \<open>\<^verbatim>\<open>1. + tf.exp(-tf.abs(d))\<close> on one entry, and on the difference of two tensors.\<close>

definition friction_coefficient :: "real \<Rightarrow> real" where
  "friction_coefficient d = 1 + exp (- \<bar>d\<bar>)"

definition friction :: "tensor \<Rightarrow> tensor \<Rightarrow> error + tensor" where
  "friction p g = bind_result (tf_subtract p g) (\<lambda>d. Inr (map friction_coefficient d))"

text \<open>Lines 123 to 126: the decoupled weight decay.\<close>

definition weight_decay_step ::
  "heap \<Rightarrow> (string \<Rightarrow> string \<Rightarrow> bool) \<Rightarrow> DiffGrad \<Rightarrow> variable \<Rightarrow> error + tensor" where
  "weight_decay_step heap re_search self variable =
     bind_result (use_weight_decay heap re_search self variable) (\<lambda>decay.
       if decay
       then assign_sub (var_value variable)
              (map (\<lambda>x. x * weight_decay self * learning_rate self) (var_value variable))
       else Inr (var_value variable))"

text \<open>Lines 129 to 148, the sparse branch, and lines 150 to 154, the dense branch. Each
  returns the new momentum, velocity, the friction coefficient and the new previous gradient.\<close>

definition sparse_update ::
  "DiffGrad \<Rightarrow> tensor \<Rightarrow> tensor \<Rightarrow> tensor \<Rightarrow> tensor \<Rightarrow> int list \<Rightarrow>
   error + (tensor \<times> tensor \<times> tensor \<times> tensor)" where
  "sparse_update self m v p vals indices =
     bind_result (assign_add m (map (\<lambda>x. - x * (1 - beta_1 self)) m)) (\<lambda>m1.
     bind_result (scatter_add m1 (map (\<lambda>x. x * (1 - beta_1 self)) vals) indices) (\<lambda>m2.
     bind_result (assign_add v (map (\<lambda>x. - x * (1 - beta_2 self)) v)) (\<lambda>v1.
     bind_result (scatter_add v1 (map (\<lambda>x. x * x * (1 - beta_2 self) + epsilon self) vals) indices) (\<lambda>v2.
     bind_result (friction p vals) (\<lambda>dfc.
     bind_result (scatter_update p vals indices) (\<lambda>p2.
     Inr (m2, v2, dfc, p2)))))))"

definition dense_update ::
  "DiffGrad \<Rightarrow> tensor \<Rightarrow> tensor \<Rightarrow> tensor \<Rightarrow> tensor \<Rightarrow>
   error + (tensor \<times> tensor \<times> tensor \<times> tensor)" where
  "dense_update self m v p g =
     bind_result (tf_subtract g m) (\<lambda>gm.
     bind_result (assign_add m (map (\<lambda>x. x * (1 - beta_1 self)) gm)) (\<lambda>m2.
     bind_result (tf_subtract (map (\<lambda>x. x * x) g) v) (\<lambda>gv.
     bind_result (assign_add v (map (\<lambda>x. x * (1 - beta_2 self) + epsilon self) gv)) (\<lambda>v2.
     bind_result (friction p g) (\<lambda>dfc.
     bind_result (assign p g) (\<lambda>p2.
     Inr (m2, v2, dfc, p2)))))))"

text \<open>Lines 155 to 158: with AMSGrad the running maximum is stored and takes the place of
  the velocity. The result is the list of maxima and the velocity the final update uses.\<close>

definition amsgrad_step :: "DiffGrad \<Rightarrow> nat \<Rightarrow> tensor \<Rightarrow> error + (tensor list \<times> tensor)" where
  "amsgrad_step self index v =
     (if amsgrad self then
        (if index < length (velocity_hats self) then
           bind_result (tf_maximum (velocity_hats self ! index) v) (\<lambda>mx.
           bind_result (assign (velocity_hats self ! index) mx) (\<lambda>v_hat.
           Inr ((velocity_hats self)[index := v_hat], v_hat)))
         else Inl LookupError)
      else Inr (velocity_hats self, v))"

text \<open>Lines 117 to 121 and 128 to 159: everything after the weight decay, on the variable's
  value \<open>x\<close> as the decay left it.\<close>

definition gradient_step ::
  "DiffGrad \<Rightarrow> nat \<Rightarrow> gradient \<Rightarrow> variable \<Rightarrow> tensor \<Rightarrow> error + (DiffGrad \<times> variable)" where
  "gradient_step self index grad variable x =
     (let lr = learning_rate self;
          local_step = iterations self + 1;
          beta_1_power = beta_1 self ^ local_step;
          beta_2_power = beta_2 self ^ local_step
      in if \<not> (index < length (momentums self) \<and> index < length (velocities self)
                \<and> index < length (prev_gradients self))
         then Inl LookupError
         else
           let m = momentums self ! index;
               v = velocities self ! index;
               p = prev_gradients self ! index;
               alpha = lr * sqrt (1 - beta_2_power) / (1 - beta_1_power)
           in
           bind_result
             (case grad of
                IndexedSlices vals indices \<Rightarrow> sparse_update self m v p vals indices
              | Dense g \<Rightarrow> dense_update self m v p g) (\<lambda>(m2, v2, dfc, p2).
           bind_result (amsgrad_step self index v2) (\<lambda>(v_hats, v_used).
           bind_result (tf_multiply dfc (map sqrt v_used)) (\<lambda>denominator.
           bind_result (tf_divide (map (\<lambda>a. a * alpha) m2) denominator) (\<lambda>delta.
           bind_result (assign_sub x delta) (\<lambda>x2.
           Inr (self\<lparr>momentums := (momentums self)[index := m2],
                     velocities := (velocities self)[index := v2],
                     prev_gradients := (prev_gradients self)[index := p2],
                     velocity_hats := v_hats\<rparr>,
                variable\<lparr>var_value := x2\<rparr>)))))))"

text \<open>\<^verbatim>\<open>update_step\<close>: the slot of the variable is looked up, the weight decay is applied
  unless the variable is excluded, and the gradient step follows. A raise ends the step with
  the error.\<close>

definition update_step ::
  "heap \<Rightarrow> (string \<Rightarrow> string \<Rightarrow> bool) \<Rightarrow> DiffGrad \<Rightarrow> gradient \<Rightarrow> variable \<Rightarrow>
   error + (DiffGrad \<times> variable)" where
  "update_step heap re_search self grad variable =
     (case index_dict self (var_key variable) of
        None \<Rightarrow> Inl LookupError
      | Some index \<Rightarrow>
          bind_result (weight_decay_step heap re_search self variable)
            (gradient_step self index grad variable))"

text \<open>A run of update steps on one variable, each with its gradient and with the heap as
  it is then (the other variables change between two steps of this one). Between two steps
  the host's training loop advances the step counter by one.\<close>

fun update_steps ::
  "(string \<Rightarrow> string \<Rightarrow> bool) \<Rightarrow> DiffGrad \<Rightarrow> (heap \<times> gradient) list \<Rightarrow> variable \<Rightarrow>
   error + (DiffGrad \<times> variable)" where
  "update_steps re_search self [] variable = Inr (self, variable)"
| "update_steps re_search self ((heap, g) # gs) variable =
     bind_result (update_step heap re_search self g variable) (\<lambda>(self', variable').
       update_steps re_search (self'\<lparr>iterations := iterations self' + 1\<rparr>) gs variable')"

section \<open>Notions used to state the properties\<close>

text \<open>The step scale \<^verbatim>\<open>alpha\<close> of line 121, and the values a gradient carries.\<close>

definition step_alpha :: "DiffGrad \<Rightarrow> real" where
  "step_alpha self = learning_rate self * sqrt (1 - beta_2 self ^ (iterations self + 1))
       / (1 - beta_1 self ^ (iterations self + 1))"

definition gradient_values :: "gradient \<Rightarrow> tensor" where
  "gradient_values grad = (case grad of Dense g \<Rightarrow> g | IndexedSlices vals indices \<Rightarrow> vals)"

text \<open>What \<^verbatim>\<open>build\<close> establishes for a variable of its list: the variable has slot \<open>i\<close>,
  and the state tensors of that slot have the variable's shape.\<close>

definition slots_ok :: "DiffGrad \<Rightarrow> variable \<Rightarrow> nat \<Rightarrow> bool" where
  "slots_ok self variable i \<longleftrightarrow>
     index_dict self (var_key variable) = Some i
     \<and> i < length (momentums self) \<and> length (momentums self ! i) = length (var_value variable)
     \<and> i < length (velocities self) \<and> length (velocities self ! i) = length (var_value variable)
     \<and> i < length (prev_gradients self)
     \<and> length (prev_gradients self ! i) = length (var_value variable)
     \<and> (amsgrad self \<longrightarrow> i < length (velocity_hats self)
           \<and> length (velocity_hats self ! i) = length (var_value variable))"

subsection \<open>Objects used as concrete inputs\<close>

text \<open>A heap for a model whose other objects hold nothing, \<^verbatim>\<open>DiffGrad()\<close> and
  \<^verbatim>\<open>DiffGrad(amsgrad=True)\<close> with every other argument left out, a five-row and a two-row
  variable, and a bias variable.\<close>

definition no_other_variables :: heap where
  "no_other_variables = (\<lambda>k. [])"

definition default_DiffGrad :: DiffGrad where
  "default_DiffGrad = projr (DiffGrad_init None None None None None None)"

definition amsgrad_DiffGrad :: DiffGrad where
  "amsgrad_DiffGrad = projr (DiffGrad_init None None None None None (Some True))"

definition embedding :: variable where
  "embedding = \<lparr>var_key = 0, var_name = ''embedding/embeddings:0'', var_value = [1, 1, 1, 1, 1]\<rparr>"

definition dense_kernel :: variable where
  "dense_kernel = \<lparr>var_key = 1, var_name = ''dense/kernel:0'', var_value = [1, 1]\<rparr>"

definition bias :: variable where
  "bias = \<lparr>var_key = 2, var_name = ''dense/bias:0'', var_value = [3]\<rparr>"

definition output_kernel :: variable where
  "output_kernel = \<lparr>var_key = 3, var_name = ''output/kernel:0'', var_value = [2, 5]\<rparr>"

definition output_bias :: variable where
  "output_bias = \<lparr>var_key = 4, var_name = ''output/bias:0'', var_value = [3]\<rparr>"

text \<open>The heap of a model that holds these variables.\<close>

definition model_heap :: heap where
  "model_heap = (\<lambda>k. if k = var_key dense_kernel then var_value dense_kernel
                      else if k = var_key bias then var_value bias
                      else if k = var_key output_kernel then var_value output_kernel
                      else if k = var_key output_bias then var_value output_bias
                      else [])"

text \<open>The default optimizer told to exclude the kernel, built on the two kernels; told to
  exclude the bias, built on the two biases; and told to exclude every variable whose name
  holds \<^verbatim>\<open>bias\<close>, built on the kernel and the bias.\<close>

definition kernel_excluded_DiffGrad :: DiffGrad where
  "kernel_excluded_DiffGrad =
     build (fst (exclude_from_weight_decay default_DiffGrad (Some [var_key dense_kernel]) None))
       [dense_kernel, output_kernel]"

definition bias_listed_DiffGrad :: DiffGrad where
  "bias_listed_DiffGrad =
     build (fst (exclude_from_weight_decay default_DiffGrad (Some [var_key bias]) None))
       [bias, output_bias]"

definition bias_excluded_DiffGrad :: DiffGrad where
  "bias_excluded_DiffGrad =
     build (fst (exclude_from_weight_decay default_DiffGrad None (Some [''bias''])))
       [dense_kernel, bias]"

section \<open>The friction coefficient\<close>

lemma friction_coefficient_at_top: "(friction_coefficient \<longlongrightarrow> 1) at_top"
proof -
  have "filterlim (\<lambda>d::real. - \<bar>d\<bar>) at_bot at_top"
    by (simp add: filterlim_uminus_at_bot filterlim_abs_real)
  then have "((\<lambda>d::real. exp (- \<bar>d\<bar>)) \<longlongrightarrow> 0) at_top"
    by (rule filterlim_compose [OF exp_at_bot])
  then have "((\<lambda>d::real. 1 + exp (- \<bar>d\<bar>)) \<longlongrightarrow> 1 + 0) at_top"
    by (intro tendsto_add tendsto_const)
  then show ?thesis by (simp add: friction_coefficient_def [abs_def])
qed

lemma friction_coefficient_at_bot: "(friction_coefficient \<longlongrightarrow> 1) at_bot"
proof -
  have "filterlim (\<lambda>d::real. \<bar>d\<bar>) at_top at_bot"
    using filterlim_compose [OF filterlim_abs_real filterlim_uminus_at_top_at_bot] by simp
  then have "filterlim (\<lambda>d::real. - \<bar>d\<bar>) at_bot at_bot"
    by (simp add: filterlim_uminus_at_bot)
  then have "((\<lambda>d::real. exp (- \<bar>d\<bar>)) \<longlongrightarrow> 0) at_bot"
    by (rule filterlim_compose [OF exp_at_bot])
  then have "((\<lambda>d::real. 1 + exp (- \<bar>d\<bar>)) \<longlongrightarrow> 1 + 0) at_bot"
    by (intro tendsto_add tendsto_const)
  then show ?thesis by (simp add: friction_coefficient_def [abs_def])
qed

lemma friction_coefficient_at_0: "friction_coefficient \<midarrow>0\<rightarrow> 2"
  unfolding friction_coefficient_def [abs_def]
  by (rule tendsto_eq_intros refl | simp)+

text \<open>
  C3, as the spec states it: for every gradient difference \<open>d = prev_gradient - gradient\<close>
  the friction coefficient lies in [1, 2). It fails where the gradient did not change: at
  \<open>d = 0\<close> the coefficient is exactly 2.
\<close>

theorem friction_coefficient_half_open_counterexample:
  "\<not> (1 \<le> friction_coefficient (0 - 0) \<and> friction_coefficient (0 - 0) < 2)"
  by (simp add: friction_coefficient_def)

text \<open>
  C3, amended: for every gradient difference \<open>d = prev_gradient - gradient\<close> the friction
  coefficient \<open>1 + exp (- |d|)\<close> lies in the closed range [1, 2]: it is above 1, at most 2,
  and 2 exactly when the two gradients are equal; it tends to 1 as \<open>d\<close> grows in either
  direction and to 2 as \<open>d\<close> tends to 0.
\<close>

theorem friction_coefficient_range:
  "1 < friction_coefficient (p - g) \<and> friction_coefficient (p - g) \<le> 2
   \<and> (friction_coefficient (p - g) = 2 \<longleftrightarrow> p = g)
   \<and> (friction_coefficient \<longlongrightarrow> 1) at_top
   \<and> (friction_coefficient \<longlongrightarrow> 1) at_bot
   \<and> friction_coefficient \<midarrow>0\<rightarrow> 2"
proof -
  have "1 < friction_coefficient (p - g) \<and> friction_coefficient (p - g) \<le> 2
        \<and> (friction_coefficient (p - g) = 2 \<longleftrightarrow> p = g)"
    by (auto simp add: friction_coefficient_def)
  then show ?thesis
    using friction_coefficient_at_top friction_coefficient_at_bot friction_coefficient_at_0
    by simp
qed

section \<open>Construction, build and the exclusion configuration\<close>

text \<open>
  C4, as the spec states it: constructing the engine without a non-null numeric
  \<^verbatim>\<open>weight_decay\<close> is an error, and an absent argument is not replaced by a default. It
  fails for the absent argument: \<^verbatim>\<open>DiffGrad()\<close> is constructed, with the decay 0.004 of the
  signature.
\<close>

theorem init_without_weight_decay_counterexample:
  "map_sum id weight_decay (DiffGrad_init None None None None None None) = Inr (4 / 1000)"
  by (simp add: DiffGrad_init_def keyword_def)

text \<open>
  C4, amended: constructing the engine with \<^verbatim>\<open>weight_decay\<close> passed as null
  (\<^verbatim>\<open>None\<close>) raises at construction, so no engine exists that could be built; with the
  argument left out the engine is constructed, not yet built, with the default decay 0.004,
  and with a number passed it is constructed with that number.
\<close>

theorem init_weight_decay:
  "DiffGrad_init lr (Some None) b1 b2 e a = Inl ValueError
   \<and> (\<exists>self. DiffGrad_init lr None b1 b2 e a = Inr self
         \<and> weight_decay self = 4 / 1000 \<and> \<not> built self)
   \<and> (\<exists>self. DiffGrad_init lr (Some (Some wd)) b1 b2 e a = Inr self
         \<and> weight_decay self = wd \<and> \<not> built self)"
  by (simp add: DiffGrad_init_def keyword_def)

lemma built_build: "built (build self var_list)"
  by (simp add: build_def Let_def)

lemma build_built: "built self \<Longrightarrow> build self var_list = self"
  by (simp add: build_def Let_def)

text \<open>
  C7: a second call of \<^verbatim>\<open>build\<close>, with any variable list, returns without an error and
  leaves the whole object, so every state tensor (momentum, velocity, previous gradient,
  velocity maximum), as the first call left it.
\<close>

theorem build_idempotent:
  "build (build self var_list) var_list' = build self var_list"
  by (simp add: build_built built_build)

text \<open>
  C8: after \<^verbatim>\<open>build\<close> has run, \<^verbatim>\<open>exclude_from_weight_decay\<close> raises, and the object it
  leaves is the built object unchanged: both exclusion lists are what they were.
\<close>

theorem exclude_after_build_raises:
  "exclude_from_weight_decay (build self var_list) vars names
     = (build self var_list, Some ValueError)"
  by (simp add: exclude_from_weight_decay_def built_build)

text \<open>
  C10: before \<^verbatim>\<open>build\<close>, every call of \<^verbatim>\<open>exclude_from_weight_decay\<close> sets both exclusion
  lists to its arguments, an argument left out or \<^verbatim>\<open>None\<close> giving the empty list; nothing
  of an earlier call survives, so a second call that passes only name patterns erases the
  identities of the first, and the other way round.
\<close>

theorem exclude_replaces:
  assumes "\<not> built self"
  shows "exclude_from_weight_decay self var_list var_names =
           (self\<lparr>exclude_from_weight_decay_vars := (case var_list of None \<Rightarrow> [] | Some ks \<Rightarrow> ks),
                 exclude_from_weight_decay_names := (case var_names of None \<Rightarrow> [] | Some ns \<Rightarrow> ns)\<rparr>,
            None)
       \<and> fst (exclude_from_weight_decay
                (fst (exclude_from_weight_decay self var_list var_names)) var_list' var_names')
           = fst (exclude_from_weight_decay self var_list' var_names')
       \<and> exclude_from_weight_decay_vars
            (fst (exclude_from_weight_decay
                    (fst (exclude_from_weight_decay self (Some ks) None)) None (Some ns))) = []
       \<and> exclude_from_weight_decay_names
            (fst (exclude_from_weight_decay
                    (fst (exclude_from_weight_decay self None (Some ns))) (Some ks) None)) = []"
  using assms by (simp add: exclude_from_weight_decay_def or_empty_def split: option.splits)

theorem exclude_replaces_witness:
  "\<not> built default_DiffGrad
   \<and> fst (exclude_from_weight_decay
            (fst (exclude_from_weight_decay default_DiffGrad (Some [7]) None))
            None (Some [''bias'']))
      = default_DiffGrad\<lparr>exclude_from_weight_decay_vars := [],
                         exclude_from_weight_decay_names := [''bias'']\<rparr>"
proof -
  have nb: "\<not> built default_DiffGrad"
    by (simp add: default_DiffGrad_def DiffGrad_init_def keyword_def)
  have "fst (exclude_from_weight_decay
               (fst (exclude_from_weight_decay default_DiffGrad (Some [7]) None))
               None (Some [''bias'']))
        = fst (exclude_from_weight_decay default_DiffGrad None (Some [''bias'']))"
    using exclude_replaces [OF nb, of "Some [7]" None None "Some [''bias'']"] by blast
  moreover have "exclude_from_weight_decay default_DiffGrad None (Some [''bias''])
        = (default_DiffGrad\<lparr>exclude_from_weight_decay_vars := [],
                            exclude_from_weight_decay_names := [''bias'']\<rparr>, None)"
    using exclude_replaces [OF nb, of None "Some [''bias'']"] by simp
  ultimately show ?thesis using nb by simp
qed

section \<open>The update step: auxiliary facts\<close>

lemma bind_result_Inr_iff:
  "bind_result r f = Inr y \<longleftrightarrow> (\<exists>x. r = Inr x \<and> f x = Inr y)"
  by (cases r) (simp_all add: bind_result_def)

lemma bind_result_Inr [simp]: "bind_result (Inr x) f = f x"
  by (simp add: bind_result_def)

lemma bind_result_Inl [simp]: "bind_result (Inl e) f = Inl e"
  by (simp add: bind_result_def)

lemma broadcast_op_same:
  "length xs = length ys \<Longrightarrow> broadcast_op f xs ys = Inr (map2 f xs ys)"
  by (simp add: broadcast_op_def)

lemma assign_add_Inr_iff:
  "assign_add var delta = Inr r \<longleftrightarrow> length delta = length var \<and> r = map2 (\<lambda>a b. a + b) var delta"
  by (auto simp add: assign_add_def)

lemma assign_sub_Inr_iff:
  "assign_sub var delta = Inr r \<longleftrightarrow> length delta = length var \<and> r = map2 (\<lambda>a b. a - b) var delta"
  by (auto simp add: assign_sub_def)

lemma assign_Inr_iff:
  "assign var new = Inr r \<longleftrightarrow> length new = length var \<and> r = new"
  by (auto simp add: assign_def)

lemma scatter_length: "scatter f t ixs = Inr r \<Longrightarrow> length r = length t"
  by (induction f t ixs rule: scatter.induct) (auto split: if_splits)

lemma scatter_add_length: "scatter_add var vals indices = Inr r \<Longrightarrow> length r = length var"
  by (auto simp add: scatter_add_def scatter_length split: if_splits)

lemma scatter_update_length: "scatter_update var vals indices = Inr r \<Longrightarrow> length r = length var"
  by (auto simp add: scatter_update_def scatter_length split: if_splits)

lemma broadcast_op_length:
  "broadcast_op f xs ys = Inr zs \<Longrightarrow>
     length zs = (if length xs = length ys then length xs
                  else if length xs = 1 then length ys else length xs)"
  by (auto simp add: broadcast_op_def split: if_splits)

lemma broadcast_op_length_cases:
  "broadcast_op f xs ys = Inr zs \<Longrightarrow>
     (length xs = length ys \<and> length zs = length xs)
     \<or> (length xs \<noteq> length ys \<and> length xs = 1 \<and> length zs = length ys)
     \<or> (length xs \<noteq> length ys \<and> length ys = 1 \<and> length zs = length xs)"
  by (auto simp add: broadcast_op_def split: if_splits)

lemma shape_arith:
  fixes n k a b c :: nat
  assumes "(n = k \<and> a = n) \<or> (n \<noteq> k \<and> n = 1 \<and> a = k) \<or> (n \<noteq> k \<and> k = 1 \<and> a = n)"
    and "(a = n \<and> b = a) \<or> (a \<noteq> n \<and> a = 1 \<and> b = n) \<or> (a \<noteq> n \<and> n = 1 \<and> b = a)"
    and "(n = b \<and> c = n) \<or> (n \<noteq> b \<and> n = 1 \<and> c = b) \<or> (n \<noteq> b \<and> b = 1 \<and> c = n)"
    and "c = n"
  shows "a = n"
  using assms by arith

lemma dense_update_Inr:
  assumes "dense_update self m v p g = Inr (m2, v2, dfc, p2)"
    and "length m = n" "length v = n" "length p = n"
  shows "length m2 = n \<and> length v2 = n \<and> length p2 = n \<and> friction p g = Inr dfc \<and> p2 = g \<and> length g = n"
  using assms
  by (auto simp add: dense_update_def bind_result_Inr_iff assign_add_Inr_iff assign_Inr_iff)

lemma sparse_update_Inr:
  assumes "sparse_update self m v p vals indices = Inr (m2, v2, dfc, p2)"
    and "length m = n" "length v = n" "length p = n"
  shows "length m2 = n \<and> length v2 = n \<and> length p2 = n \<and> friction p vals = Inr dfc"
  using assms
  by (auto simp add: sparse_update_def bind_result_Inr_iff assign_add_Inr_iff
      dest!: scatter_add_length scatter_update_length)


lemma amsgrad_step_Inr:
  assumes "amsgrad_step self i v2 = Inr (v_hats, v_used)"
    and "length v2 = n"
    and "amsgrad self \<longrightarrow> i < length (velocity_hats self) \<and> length (velocity_hats self ! i) = n"
  shows "v_used = (if amsgrad self then map2 max (velocity_hats self ! i) v2 else v2)
       \<and> v_hats = (if amsgrad self then (velocity_hats self)[i := v_used] else velocity_hats self)
       \<and> length v_used = n"
  using assms
  by (auto simp add: amsgrad_step_def tf_maximum_def broadcast_op_same bind_result_Inr_iff
      assign_Inr_iff split: if_splits)

lemma final_update_Inr:
  assumes "friction p gv = Inr dfc"
    and "tf_multiply dfc (map sqrt v_used) = Inr den"
    and "tf_divide (map (\<lambda>a. a * alpha) m2) den = Inr delta"
    and "assign_sub x delta = Inr x2"
    and "length p = n" "length m2 = n" "length v_used = n" "length x = n"
  shows "length dfc = n
       \<and> x2 = map2 (\<lambda>a b. a - b) x
                (map2 (\<lambda>a b. a / b) (map (\<lambda>a. a * alpha) m2)
                   (map2 (\<lambda>a b. a * b) dfc (map sqrt v_used)))"
proof -
  from assms(1) obtain d where d: "tf_subtract p gv = Inr d" and dfc: "dfc = map friction_coefficient d"
    by (auto simp add: friction_def bind_result_Inr_iff)
  have ld: "length delta = n" and x2: "x2 = map2 (\<lambda>a b. a - b) x delta"
    using assms(4,8) by (auto simp add: assign_sub_Inr_iff)
  have s1: "(length p = length gv \<and> length d = length p)
      \<or> (length p \<noteq> length gv \<and> length p = 1 \<and> length d = length gv)
      \<or> (length p \<noteq> length gv \<and> length gv = 1 \<and> length d = length p)"
    by (rule broadcast_op_length_cases [OF d [unfolded tf_subtract_def]])
  have s2: "(length dfc = length (map sqrt v_used) \<and> length den = length dfc)
      \<or> (length dfc \<noteq> length (map sqrt v_used) \<and> length dfc = 1 \<and> length den = length (map sqrt v_used))
      \<or> (length dfc \<noteq> length (map sqrt v_used) \<and> length (map sqrt v_used) = 1 \<and> length den = length dfc)"
    by (rule broadcast_op_length_cases [OF assms(2) [unfolded tf_multiply_def]])
  have s3: "(length (map (\<lambda>a. a * alpha) m2) = length den \<and> length delta = length (map (\<lambda>a. a * alpha) m2))
      \<or> (length (map (\<lambda>a. a * alpha) m2) \<noteq> length den \<and> length (map (\<lambda>a. a * alpha) m2) = 1 \<and> length delta = length den)
      \<or> (length (map (\<lambda>a. a * alpha) m2) \<noteq> length den \<and> length den = 1 \<and> length delta = length (map (\<lambda>a. a * alpha) m2))"
    by (rule broadcast_op_length_cases [OF assms(3) [unfolded tf_divide_def]])
  have ldfc: "length dfc = length d" using dfc by simp
  have len: "length dfc = n"
    by (rule shape_arith [OF s1 [unfolded assms(5) ldfc [symmetric]]
          s2 [unfolded length_map assms(7)] s3 [unfolded length_map assms(6)] ld])
  have den: "den = map2 (\<lambda>a b. a * b) dfc (map sqrt v_used)"
    using assms(2,7) len by (simp add: tf_multiply_def broadcast_op_same)
  have "delta = map2 (\<lambda>a b. a / b) (map (\<lambda>a. a * alpha) m2) den"
    using assms(3,6,7) len den by (simp add: tf_divide_def broadcast_op_same)
  with len den x2 show ?thesis by simp
qed


lemma gradient_step_Inr:
  assumes step: "gradient_step self i grad variable x = Inr (self', variable')"
    and m: "i < length (momentums self)" "length (momentums self ! i) = n"
    and v: "i < length (velocities self)" "length (velocities self ! i) = n"
    and p: "i < length (prev_gradients self)" "length (prev_gradients self ! i) = n"
    and h: "amsgrad self \<longrightarrow> i < length (velocity_hats self) \<and> length (velocity_hats self ! i) = n"
    and x: "length x = n"
  shows "\<exists>m2 v2 dfc p2 v_used.
      (case grad of
         IndexedSlices vals indices \<Rightarrow>
           sparse_update self (momentums self ! i) (velocities self ! i) (prev_gradients self ! i) vals indices
       | Dense g \<Rightarrow>
           dense_update self (momentums self ! i) (velocities self ! i) (prev_gradients self ! i) g)
        = Inr (m2, v2, dfc, p2)
      \<and> length m2 = n \<and> length v2 = n \<and> length p2 = n \<and> length dfc = n \<and> length v_used = n
      \<and> friction (prev_gradients self ! i) (gradient_values grad) = Inr dfc
      \<and> v_used = (if amsgrad self then map2 max (velocity_hats self ! i) v2 else v2)
      \<and> self' = self\<lparr>momentums := (momentums self)[i := m2],
                      velocities := (velocities self)[i := v2],
                      prev_gradients := (prev_gradients self)[i := p2],
                      velocity_hats := (if amsgrad self then (velocity_hats self)[i := v_used]
                                        else velocity_hats self)\<rparr>
      \<and> variable' = variable\<lparr>var_value :=
            map2 (\<lambda>a b. a - b) x
              (map2 (\<lambda>a b. a / b) (map (\<lambda>a. a * step_alpha self) m2)
                 (map2 (\<lambda>a b. a * b) dfc (map sqrt v_used)))\<rparr>"
proof -
  let ?m = "momentums self ! i" and ?v = "velocities self ! i" and ?p = "prev_gradients self ! i"
  let ?branch = "case grad of
         IndexedSlices vals indices \<Rightarrow> sparse_update self ?m ?v ?p vals indices
       | Dense g \<Rightarrow> dense_update self ?m ?v ?p g"
  from step m(1) v(1) p(1) have "\<exists>m2 v2 dfc p2 v_hats v_used den delta x2.
      ?branch = Inr (m2, v2, dfc, p2)
      \<and> amsgrad_step self i v2 = Inr (v_hats, v_used)
      \<and> tf_multiply dfc (map sqrt v_used) = Inr den
      \<and> tf_divide (map (\<lambda>a. a * step_alpha self) m2) den = Inr delta
      \<and> assign_sub x delta = Inr x2
      \<and> self' = self\<lparr>momentums := (momentums self)[i := m2],
                      velocities := (velocities self)[i := v2],
                      prev_gradients := (prev_gradients self)[i := p2],
                      velocity_hats := v_hats\<rparr>
      \<and> variable' = variable\<lparr>var_value := x2\<rparr>"
    by (simp add: gradient_step_def Let_def step_alpha_def bind_result_Inr_iff) blast
  then obtain m2 v2 dfc p2 v_hats v_used den delta x2 where
    br: "?branch = Inr (m2, v2, dfc, p2)"
    and am: "amsgrad_step self i v2 = Inr (v_hats, v_used)"
    and den: "tf_multiply dfc (map sqrt v_used) = Inr den"
    and delta: "tf_divide (map (\<lambda>a. a * step_alpha self) m2) den = Inr delta"
    and x2: "assign_sub x delta = Inr x2"
    and self': "self' = self\<lparr>momentums := (momentums self)[i := m2],
                      velocities := (velocities self)[i := v2],
                      prev_gradients := (prev_gradients self)[i := p2],
                      velocity_hats := v_hats\<rparr>"
    and var': "variable' = variable\<lparr>var_value := x2\<rparr>"
    by blast
  have lens: "length m2 = n \<and> length v2 = n \<and> length p2 = n
        \<and> friction ?p (gradient_values grad) = Inr dfc"
  proof (cases grad)
    case (Dense g)
    with br have "dense_update self ?m ?v ?p g = Inr (m2, v2, dfc, p2)" by simp
    from dense_update_Inr [OF this m(2) v(2) p(2)] Dense show ?thesis
      by (simp add: gradient_values_def)
  next
    case (IndexedSlices vals indices)
    with br have "sparse_update self ?m ?v ?p vals indices = Inr (m2, v2, dfc, p2)" by simp
    from sparse_update_Inr [OF this m(2) v(2) p(2)] IndexedSlices show ?thesis
      by (simp add: gradient_values_def)
  qed
  from lens have lv2: "length v2 = n" by simp
  note a = amsgrad_step_Inr [OF am lv2 h]
  from lens have fr: "friction ?p (gradient_values grad) = Inr dfc" and lm2: "length m2 = n"
    by blast+
  from a have lvu: "length v_used = n" by blast
  from a have vu: "v_used = (if amsgrad self then map2 max (velocity_hats self ! i) v2 else v2)"
    by blast
  from a have vh: "v_hats = (if amsgrad self then (velocity_hats self)[i := v_used]
       else velocity_hats self)" by blast
  note f = final_update_Inr [OF fr den delta x2 p(2) lm2 lvu x]
  from f have ldfc: "length dfc = n" by blast
  from f have x2v: "x2 = map2 (\<lambda>a b. a - b) x
                (map2 (\<lambda>a b. a / b) (map (\<lambda>a. a * step_alpha self) m2)
                   (map2 (\<lambda>a b. a * b) dfc (map sqrt v_used)))" by blast
  from lens have lp2: "length p2 = n" by blast
  show ?thesis
    apply (rule exI [of _ m2], rule exI [of _ v2], rule exI [of _ dfc], rule exI [of _ p2],
        rule exI [of _ v_used])
    apply (intro conjI)
    apply (rule br, rule lm2, rule lv2, rule lp2, rule ldfc, rule lvu, rule fr, rule vu)
    apply (simp only: self' vh)
    apply (simp only: var' x2v)
    done
qed


lemma map2_map_self: "map2 f xs (map g xs) = map (\<lambda>x. f x (g x)) xs"
  by (induction xs) simp_all

lemma names_loop_iff:
  "names_loop re_search names vname \<longleftrightarrow> \<not> (\<exists>name \<in> set names. re_search name vname)"
  by (induction names) simp_all

lemma use_weight_decay_eq:
  "list_contains heap (exclude_from_weight_decay_vars self) variable = Inr found \<Longrightarrow>
     use_weight_decay heap re_search self variable
       = Inr (\<not> found \<and> \<not> (\<exists>name \<in> set (exclude_from_weight_decay_names self).
                                  re_search name (var_name variable)))"
  by (simp add: use_weight_decay_def names_loop_iff)

lemma weight_decay_step_eq:
  "use_weight_decay heap re_search self variable = Inr decay \<Longrightarrow>
     weight_decay_step heap re_search self variable =
       Inr (if decay
            then map (\<lambda>x. x - x * weight_decay self * learning_rate self) (var_value variable)
            else var_value variable)"
  by (simp add: weight_decay_step_def assign_sub_def map2_map_self)

lemma weight_decay_step_Inr:
  assumes "weight_decay_step heap re_search self variable = Inr x"
  shows "\<exists>decay. use_weight_decay heap re_search self variable = Inr decay
           \<and> x = (if decay
                  then map (\<lambda>x. x - x * weight_decay self * learning_rate self)
                         (var_value variable)
                  else var_value variable)"
proof (cases "use_weight_decay heap re_search self variable")
  case (Inl e)
  with assms show ?thesis by (simp add: weight_decay_step_def)
next
  case (Inr decay)
  from weight_decay_step_eq [OF Inr] assms Inr show ?thesis by simp
qed

lemma weight_decay_step_length:
  "weight_decay_step heap re_search self variable = Inr x \<Longrightarrow>
     length x = length (var_value variable)"
  by (auto dest!: weight_decay_step_Inr)

lemma update_step_raises:
  assumes "slots_ok self variable i"
    and "use_weight_decay heap re_search self variable = Inl e"
  shows "update_step heap re_search self grad variable = Inl e"
  using assms by (simp add: update_step_def slots_ok_def weight_decay_step_def)

lemma dense_update_eq:
  assumes "length m = n" "length v = n" "length p = n" "length g = n"
  shows "dense_update self m v p g =
     Inr (map2 (\<lambda>a b. a + (b - a) * (1 - beta_1 self)) m g,
          map2 (\<lambda>a b. a + (b\<^sup>2 - a) * (1 - beta_2 self) + epsilon self) v g,
          map2 (\<lambda>a b. friction_coefficient (a - b)) p g,
          g)"
proof -
  have m: "map2 (\<lambda>a b. a + b) m (map (\<lambda>x. x * (1 - beta_1 self)) (map2 (\<lambda>a b. a - b) g m))
      = map2 (\<lambda>a b. a + (b - a) * (1 - beta_1 self)) m g"
    using assms by (intro nth_equalityI) simp_all
  have v: "map2 (\<lambda>a b. a + b) v
        (map (\<lambda>x. x * (1 - beta_2 self) + epsilon self) (map2 (\<lambda>a b. a - b) (map (\<lambda>x. x * x) g) v))
      = map2 (\<lambda>a b. a + (b\<^sup>2 - a) * (1 - beta_2 self) + epsilon self) v g"
    using assms by (intro nth_equalityI) (simp_all add: power2_eq_square)
  have p: "map friction_coefficient (map2 (\<lambda>a b. a - b) p g)
      = map2 (\<lambda>a b. friction_coefficient (a - b)) p g"
    using assms by (intro nth_equalityI) simp_all
  show ?thesis
    using assms m v p
    by (simp add: dense_update_def tf_subtract_def broadcast_op_same assign_add_def assign_def
        friction_def)
qed


lemma gradient_step_dense_eq:
  assumes m: "i < length (momentums self)" "length (momentums self ! i) = n"
    and v: "i < length (velocities self)" "length (velocities self ! i) = n"
    and p: "i < length (prev_gradients self)" "length (prev_gradients self ! i) = n"
    and h: "amsgrad self \<longrightarrow> i < length (velocity_hats self) \<and> length (velocity_hats self ! i) = n"
    and g: "length g = n" and x: "length x = n"
  shows "gradient_step self i (Dense g) variable x =
     (let m2 = map2 (\<lambda>a b. a + (b - a) * (1 - beta_1 self)) (momentums self ! i) g;
          v2 = map2 (\<lambda>a b. a + (b\<^sup>2 - a) * (1 - beta_2 self) + epsilon self) (velocities self ! i) g;
          dfc = map2 (\<lambda>a b. friction_coefficient (a - b)) (prev_gradients self ! i) g;
          v_used = (if amsgrad self then map2 max (velocity_hats self ! i) v2 else v2)
      in Inr (self\<lparr>momentums := (momentums self)[i := m2],
                   velocities := (velocities self)[i := v2],
                   prev_gradients := (prev_gradients self)[i := g],
                   velocity_hats := (if amsgrad self then (velocity_hats self)[i := v_used]
                                     else velocity_hats self)\<rparr>,
              variable\<lparr>var_value :=
                map2 (\<lambda>a b. a - b) x
                  (map2 (\<lambda>a b. a / b) (map (\<lambda>a. a * step_alpha self) m2)
                     (map2 (\<lambda>a b. a * b) dfc (map sqrt v_used)))\<rparr>))"
  using m(1) v(1) p(1) h g x m(2) v(2) p(2)
  by (simp add: gradient_step_def Let_def dense_update_eq [OF m(2) v(2) p(2) g]
      amsgrad_step_def tf_maximum_def tf_multiply_def tf_divide_def broadcast_op_same
      assign_def assign_sub_def step_alpha_def)

section \<open>The dense step\<close>

lemma update_step_dense_eq:
  assumes ok: "slots_ok self variable i" and g: "length g = length (var_value variable)"
    and uwd: "use_weight_decay heap re_search self variable = Inr decay"
  shows "update_step heap re_search self (Dense g) variable =
     (let x = (if decay
               then map (\<lambda>x. x - x * weight_decay self * learning_rate self) (var_value variable)
               else var_value variable);
          m2 = map2 (\<lambda>a b. a + (b - a) * (1 - beta_1 self)) (momentums self ! i) g;
          v2 = map2 (\<lambda>a b. a + (b\<^sup>2 - a) * (1 - beta_2 self) + epsilon self) (velocities self ! i) g;
          dfc = map2 (\<lambda>a b. friction_coefficient (a - b)) (prev_gradients self ! i) g;
          v_used = (if amsgrad self then map2 max (velocity_hats self ! i) v2 else v2)
      in Inr (self\<lparr>momentums := (momentums self)[i := m2],
                   velocities := (velocities self)[i := v2],
                   prev_gradients := (prev_gradients self)[i := g],
                   velocity_hats := (if amsgrad self then (velocity_hats self)[i := v_used]
                                     else velocity_hats self)\<rparr>,
              variable\<lparr>var_value :=
                map2 (\<lambda>a b. a - b) x
                  (map2 (\<lambda>a b. a / b) (map (\<lambda>a. a * step_alpha self) m2)
                     (map2 (\<lambda>a b. a * b) dfc (map sqrt v_used)))\<rparr>))"
proof -
  let ?n = "length (var_value variable)"
  let ?x = "if decay
          then map (\<lambda>x. x - x * weight_decay self * learning_rate self) (var_value variable)
          else var_value variable"
  from ok have idx: "index_dict self (var_key variable) = Some i"
    and m: "i < length (momentums self)" "length (momentums self ! i) = ?n"
    and v: "i < length (velocities self)" "length (velocities self ! i) = ?n"
    and p: "i < length (prev_gradients self)" "length (prev_gradients self ! i) = ?n"
    and h: "amsgrad self \<longrightarrow> i < length (velocity_hats self) \<and> length (velocity_hats self ! i) = ?n"
    by (simp_all add: slots_ok_def)
  have x: "length ?x = ?n" by simp
  have "update_step heap re_search self (Dense g) variable
      = gradient_step self i (Dense g) variable ?x"
    by (simp add: update_step_def idx weight_decay_step_eq [OF uwd])
  also note gradient_step_dense_eq [OF m v p h g x, of variable]
  finally show ?thesis by (simp only: Let_def)
qed





section \<open>Steps that return, and the AMSGrad maximum\<close>

lemma update_step_Inr:
  assumes ok: "slots_ok self variable i"
    and step: "update_step heap re_search self grad variable = Inr (self', variable')"
  shows "\<exists>m2 v2 dfc p2 v_used x.
      weight_decay_step heap re_search self variable = Inr x
      \<and> length x = length (var_value variable)
      \<and> length m2 = length (var_value variable) \<and> length v2 = length (var_value variable)
      \<and> length p2 = length (var_value variable) \<and> length dfc = length (var_value variable)
      \<and> length v_used = length (var_value variable)
      \<and> friction (prev_gradients self ! i) (gradient_values grad) = Inr dfc
      \<and> v_used = (if amsgrad self then map2 max (velocity_hats self ! i) v2 else v2)
      \<and> self' = self\<lparr>momentums := (momentums self)[i := m2],
                      velocities := (velocities self)[i := v2],
                      prev_gradients := (prev_gradients self)[i := p2],
                      velocity_hats := (if amsgrad self then (velocity_hats self)[i := v_used]
                                        else velocity_hats self)\<rparr>
      \<and> variable' = variable\<lparr>var_value :=
            map2 (\<lambda>a b. a - b) x
              (map2 (\<lambda>a b. a / b) (map (\<lambda>a. a * step_alpha self) m2)
                 (map2 (\<lambda>a b. a * b) dfc (map sqrt v_used)))\<rparr>"
proof -
  let ?n = "length (var_value variable)"
  from ok have idx: "index_dict self (var_key variable) = Some i"
    and m: "i < length (momentums self)" "length (momentums self ! i) = ?n"
    and v: "i < length (velocities self)" "length (velocities self ! i) = ?n"
    and p: "i < length (prev_gradients self)" "length (prev_gradients self ! i) = ?n"
    and h: "amsgrad self \<longrightarrow> i < length (velocity_hats self) \<and> length (velocity_hats self ! i) = ?n"
    by (simp_all add: slots_ok_def)
  from step obtain x0 where wd: "weight_decay_step heap re_search self variable = Inr x0"
    and gs: "gradient_step self i grad variable x0 = Inr (self', variable')"
    by (auto simp add: update_step_def idx bind_result_Inr_iff)
  have x: "length x0 = ?n" by (rule weight_decay_step_length [OF wd])
  from gradient_step_Inr [OF gs m v p h x] obtain m2 v2 dfc p2 v_used where
    "length m2 = ?n" "length v2 = ?n" "length p2 = ?n" "length dfc = ?n" "length v_used = ?n"
    "friction (prev_gradients self ! i) (gradient_values grad) = Inr dfc"
    "v_used = (if amsgrad self then map2 max (velocity_hats self ! i) v2 else v2)"
    "self' = self\<lparr>momentums := (momentums self)[i := m2],
                      velocities := (velocities self)[i := v2],
                      prev_gradients := (prev_gradients self)[i := p2],
                      velocity_hats := (if amsgrad self then (velocity_hats self)[i := v_used]
                                        else velocity_hats self)\<rparr>"
    "variable' = variable\<lparr>var_value :=
            map2 (\<lambda>a b. a - b) x0
              (map2 (\<lambda>a b. a / b) (map (\<lambda>a. a * step_alpha self) m2)
                 (map2 (\<lambda>a b. a * b) dfc (map sqrt v_used)))\<rparr>"
    by blast
  with wd x show ?thesis by blast
qed

lemma amsgrad_step_facts:
  assumes ok: "slots_ok self variable i" and ams: "amsgrad self"
    and step: "update_step heap re_search self grad variable = Inr (self', variable')"
  shows "slots_ok self' variable' i
     \<and> (\<forall>j < length (var_value variable).
           velocity_hats self ! i ! j \<le> velocity_hats self' ! i ! j
         \<and> velocity_hats self' ! i ! j = max (velocity_hats self ! i ! j) (velocities self' ! i ! j))
     \<and> (\<exists>dfc x. friction (prev_gradients self ! i) (gradient_values grad) = Inr dfc
           \<and> weight_decay_step heap re_search self variable = Inr x
           \<and> length dfc = length (var_value variable) \<and> length x = length (var_value variable)
           \<and> (\<forall>j < length (var_value variable).
                 var_value variable' ! j
                   = x ! j - (momentums self' ! i ! j * step_alpha self)
                             / (dfc ! j * sqrt (velocity_hats self' ! i ! j))))"
proof -
  let ?n = "length (var_value variable)"
  from ok ams have idx: "index_dict self (var_key variable) = Some i"
    and m: "i < length (momentums self)"
    and v: "i < length (velocities self)"
    and p: "i < length (prev_gradients self)"
    and h: "i < length (velocity_hats self)" "length (velocity_hats self ! i) = ?n"
    by (simp_all add: slots_ok_def)
  from update_step_Inr [OF ok step] ams obtain m2 v2 dfc p2 v_used x where
    wd: "weight_decay_step heap re_search self variable = Inr x"
    and lx: "length x = ?n" and lm: "length m2 = ?n" and lv: "length v2 = ?n"
    and lp: "length p2 = ?n" and ld: "length dfc = ?n" and lu: "length v_used = ?n"
    and fr: "friction (prev_gradients self ! i) (gradient_values grad) = Inr dfc"
    and vu: "v_used = map2 max (velocity_hats self ! i) v2"
    and self': "self' = self\<lparr>momentums := (momentums self)[i := m2],
                      velocities := (velocities self)[i := v2],
                      prev_gradients := (prev_gradients self)[i := p2],
                      velocity_hats := (velocity_hats self)[i := v_used]\<rparr>"
    and var': "variable' = variable\<lparr>var_value :=
            map2 (\<lambda>a b. a - b) x
              (map2 (\<lambda>a b. a / b) (map (\<lambda>a. a * step_alpha self) m2)
                 (map2 (\<lambda>a b. a * b) dfc (map sqrt v_used)))\<rparr>"
    by auto
  have s1: "slots_ok self' variable' i"
    using m v p h idx lx lm lv lp ld lu by (simp add: slots_ok_def self' var')
  have s2: "\<forall>j < ?n. velocity_hats self ! i ! j \<le> velocity_hats self' ! i ! j
         \<and> velocity_hats self' ! i ! j = max (velocity_hats self ! i ! j) (velocities self' ! i ! j)"
    using m v p h lv by (simp add: self' vu)
  have s3: "\<forall>j < ?n. var_value variable' ! j
                   = x ! j - (momentums self' ! i ! j * step_alpha self)
                             / (dfc ! j * sqrt (velocity_hats self' ! i ! j))"
    using m v p h lx lm lv ld lu by (simp add: self' var')
  from s1 s2 s3 fr wd ld lx show ?thesis by blast
qed

lemma update_steps_velocity_hat:
  assumes "slots_ok self variable i" and "amsgrad self"
    and "update_steps re_search self grads variable = Inr (self', variable')"
  shows "slots_ok self' variable' i \<and> amsgrad self'
     \<and> length (var_value variable') = length (var_value variable)
     \<and> (\<forall>j < length (var_value variable).
           velocity_hats self ! i ! j \<le> velocity_hats self' ! i ! j)"
  using assms
proof (induction grads arbitrary: self variable)
  case Nil
  then show ?case by simp
next
  case (Cons hg gs)
  obtain heap g where hg: "hg = (heap, g)" by (cases hg)
  from Cons.prems(3) hg obtain s1 v1 where
    one: "update_step heap re_search self g variable = Inr (s1, v1)"
    and rest: "update_steps re_search (s1\<lparr>iterations := iterations s1 + 1\<rparr>) gs v1
        = Inr (self', variable')"
    by (auto simp add: bind_result_Inr_iff)
  note f = amsgrad_step_facts [OF Cons.prems(1,2) one]
  from f have ok1: "slots_ok s1 v1 i" by blast
  from f have mono1: "\<forall>j < length (var_value variable).
      velocity_hats self ! i ! j \<le> velocity_hats s1 ! i ! j" by blast
  from update_step_Inr [OF Cons.prems(1) one] Cons.prems(2)
  have ams1: "amsgrad s1" and len1: "length (var_value v1) = length (var_value variable)"
    by auto
  let ?s = "s1\<lparr>iterations := iterations s1 + 1\<rparr>"
  from ok1 have ok2: "slots_ok ?s v1 i" by (simp add: slots_ok_def)
  from ams1 have ams2: "amsgrad ?s" by simp
  from Cons.IH [OF ok2 ams2 rest] have
    r1: "slots_ok self' variable' i" and r2: "amsgrad self'"
    and r3: "length (var_value variable') = length (var_value v1)"
    and r4: "\<forall>j < length (var_value v1). velocity_hats ?s ! i ! j \<le> velocity_hats self' ! i ! j"
    by blast+
  have "\<forall>j < length (var_value variable).
      velocity_hats self ! i ! j \<le> velocity_hats self' ! i ! j"
  proof (intro allI impI)
    fix j assume j: "j < length (var_value variable)"
    with mono1 have "velocity_hats self ! i ! j \<le> velocity_hats s1 ! i ! j" by blast
    also from r4 j len1 have "velocity_hats s1 ! i ! j \<le> velocity_hats self' ! i ! j" by simp
    finally show "velocity_hats self ! i ! j \<le> velocity_hats self' ! i ! j" .
  qed
  with r1 r2 r3 len1 show ?case by simp
qed

text \<open>
  C6: with AMSGrad enabled, on a built variable, every update step that returns (dense or
  sparse) leaves each entry of the velocity maximum at least what it was, namely at the
  maximum of its old value and the new velocity, and the final decrement of the parameter
  divides by \<open>dfc * sqrt (velocity maximum)\<close>, the maximum standing where the velocity
  stands otherwise; so over a run of steps, for any list of gradients (and whatever the
  other variables hold at each step), no entry of the velocity maximum ever decreases.
\<close>

theorem amsgrad_velocity_hat_monotone:
  assumes ok: "slots_ok self variable i" and ams: "amsgrad self"
  shows "(\<forall>self' variable'.
            update_step heap re_search self grad variable = Inr (self', variable') \<longrightarrow>
              slots_ok self' variable' i
              \<and> (\<forall>j < length (var_value variable).
                    velocity_hats self ! i ! j \<le> velocity_hats self' ! i ! j
                  \<and> velocity_hats self' ! i ! j
                      = max (velocity_hats self ! i ! j) (velocities self' ! i ! j))
              \<and> (\<exists>dfc x. friction (prev_gradients self ! i) (gradient_values grad) = Inr dfc
                    \<and> weight_decay_step heap re_search self variable = Inr x
                    \<and> length dfc = length (var_value variable)
                    \<and> length x = length (var_value variable)
                    \<and> (\<forall>j < length (var_value variable).
                          var_value variable' ! j
                            = x ! j - (momentums self' ! i ! j * step_alpha self)
                                      / (dfc ! j * sqrt (velocity_hats self' ! i ! j)))))
       \<and> (\<forall>self' variable'.
            update_steps re_search self grads variable = Inr (self', variable') \<longrightarrow>
              (\<forall>j < length (var_value variable).
                 velocity_hats self ! i ! j \<le> velocity_hats self' ! i ! j))"
proof (rule conjI)
  show "\<forall>self' variable'.
            update_step heap re_search self grad variable = Inr (self', variable') \<longrightarrow>
              slots_ok self' variable' i
              \<and> (\<forall>j < length (var_value variable).
                    velocity_hats self ! i ! j \<le> velocity_hats self' ! i ! j
                  \<and> velocity_hats self' ! i ! j
                      = max (velocity_hats self ! i ! j) (velocities self' ! i ! j))
              \<and> (\<exists>dfc x. friction (prev_gradients self ! i) (gradient_values grad) = Inr dfc
                    \<and> weight_decay_step heap re_search self variable = Inr x
                    \<and> length dfc = length (var_value variable)
                    \<and> length x = length (var_value variable)
                    \<and> (\<forall>j < length (var_value variable).
                          var_value variable' ! j
                            = x ! j - (momentums self' ! i ! j * step_alpha self)
                                      / (dfc ! j * sqrt (velocity_hats self' ! i ! j))))"
    by (intro allI impI) (rule amsgrad_step_facts [OF ok ams])
  show "\<forall>self' variable'.
            update_steps re_search self grads variable = Inr (self', variable') \<longrightarrow>
              (\<forall>j < length (var_value variable).
                 velocity_hats self ! i ! j \<le> velocity_hats self' ! i ! j)"
    using update_steps_velocity_hat [OF ok ams] by blast
qed

lemma build_amsgrad_bias:
  "slots_ok (build amsgrad_DiffGrad [bias]) bias 0 \<and> amsgrad (build amsgrad_DiffGrad [bias])"
  by (simp add: slots_ok_def build_def amsgrad_DiffGrad_def DiffGrad_init_def keyword_def
      build_index_dict_def enumerate_eq_zip bias_def add_variable_from_reference_def Let_def)

lemma use_weight_decay_amsgrad_bias:
  "use_weight_decay heap re_search (build amsgrad_DiffGrad [bias]) bias = Inr True"
  by (simp add: use_weight_decay_def build_def amsgrad_DiffGrad_def DiffGrad_init_def
      keyword_def Let_def)

theorem amsgrad_velocity_hat_monotone_witness:
  "slots_ok (build amsgrad_DiffGrad [bias]) bias 0
   \<and> amsgrad (build amsgrad_DiffGrad [bias])
   \<and> update_step no_other_variables sublist (build amsgrad_DiffGrad [bias]) (Dense [1 / 10]) bias
       = Inr (projr (update_step no_other_variables sublist (build amsgrad_DiffGrad [bias])
                       (Dense [1 / 10]) bias))
   \<and> velocity_hats (build amsgrad_DiffGrad [bias]) ! 0 ! 0
       \<le> velocity_hats
            (fst (projr (update_step no_other_variables sublist (build amsgrad_DiffGrad [bias])
                           (Dense [1 / 10]) bias)))
            ! 0 ! 0"
proof -
  let ?S = "build amsgrad_DiffGrad [bias]"
  let ?r = "projr (update_step no_other_variables sublist ?S (Dense [1 / 10]) bias)"
  have ok: "slots_ok ?S bias 0" and ams: "amsgrad ?S"
    using build_amsgrad_bias by simp_all
  have g: "length [1 / 10 :: real] = length (var_value bias)" by (simp add: bias_def)
  have step: "update_step no_other_variables sublist ?S (Dense [1 / 10]) bias = Inr (fst ?r, snd ?r)"
    by (simp add: update_step_dense_eq [OF ok g use_weight_decay_amsgrad_bias] Let_def)
  have "0 < length (var_value bias)" by (simp add: bias_def)
  with amsgrad_velocity_hat_monotone
         [OF ok ams, of no_other_variables sublist "Dense [1 / 10]" "[]"] step
  have "velocity_hats ?S ! 0 ! 0 \<le> velocity_hats (fst ?r) ! 0 ! 0" by blast
  with ok ams step show ?thesis by simp
qed

section \<open>The sparse step on concrete inputs\<close>

lemmas fixture_defs = build_def default_DiffGrad_def DiffGrad_init_def keyword_def
  build_index_dict_def add_variable_from_reference_def Let_def embedding_def dense_kernel_def
  bias_def

text \<open>
  C1 says that a sparse step computes the friction coefficient over the touched rows only,
  from the previous gradient gathered at those rows. Line 143 subtracts the gradient values
  from the whole previous-gradient tensor instead. On a freshly built five-row variable with
  a gradient that touches rows 0 and 2, the subtraction of a two-row tensor from a five-row
  tensor raises, and the step ends there with the error.
\<close>

theorem sparse_step_two_of_five_rows_raises:
  "update_step heap sublist (build default_DiffGrad [embedding])
     (IndexedSlices [1 / 10, 2 / 10] [0, 2]) embedding = Inl InvalidArgumentError"
  by (simp add: fixture_defs update_step_def weight_decay_step_def use_weight_decay_def
      assign_sub_def gradient_step_def sparse_update_def assign_add_def scatter_add_def
      friction_def tf_subtract_def broadcast_op_def)

section \<open>The sparse step against the dense step\<close>

lemma exp_minus_one_ge: "1 / 3 \<le> exp (- 1 :: real)"
proof -
  have "exp (1::real) \<le> 3" by (rule exp_le)
  moreover have "0 < exp (1::real)" by simp
  ultimately have "1 / 3 \<le> 1 / exp (1::real)" by (simp add: field_simps)
  then show ?thesis by (simp add: exp_minus inverse_eq_divide)
qed

lemma exp_minus_two_le: "exp (- 2 :: real) \<le> 1 / 4"
proof -
  have "2 \<le> exp (1::real)" using exp_ge_add_one_self [of "1::real"] by simp
  then have "2 * 2 \<le> exp (1::real) * exp 1" by (intro mult_mono) simp_all
  also have "exp (1::real) * exp 1 = exp 2" by (simp add: exp_add [symmetric])
  finally have "4 \<le> exp (2::real)" by simp
  then have "1 / exp (2::real) \<le> 1 / 4" by (simp add: field_simps)
  then show ?thesis by (simp add: exp_minus inverse_eq_divide)
qed

lemma friction_gap:
  fixes r s :: real
  assumes r: "0 < r" and s: "0 < s" and sr: "s \<le> 11 / 5 * r"
  shows "4 < 200 * r / ((1 + exp (- 2)) * s) - 200 * r / ((1 + exp (- 1)) * s)"
proof -
  define K where "K = 200 * r / s"
  have K: "1000 / 11 \<le> K"
    using r s sr unfolding K_def by (simp add: field_simps)
  have a: "4 / 5 \<le> 1 / (1 + exp (- 2 :: real))"
    using exp_minus_two_le by (simp add: field_simps add_pos_pos)
  have b: "1 / (1 + exp (- 1 :: real)) \<le> 3 / 4"
    using exp_minus_one_ge by (simp add: field_simps add_pos_pos)
  have K0: "0 \<le> K" using K by simp
  have "200 * r / ((1 + exp (- 2)) * s) - 200 * r / ((1 + exp (- 1)) * s)
      = K * (1 / (1 + exp (- 2))) - K * (1 / (1 + exp (- 1)))"
    by (simp add: K_def mult.commute)
  also have "\<dots> \<ge> K * (4 / 5) - K * (3 / 4)"
    using mult_left_mono [OF a K0] mult_left_mono [OF b K0] by linarith
  finally have "K / 20 \<le> 200 * r / ((1 + exp (- 2)) * s) - 200 * r / ((1 + exp (- 1)) * s)"
    by simp
  with K show ?thesis by simp
qed

lemma sqrt_gap: "sqrt (40000000000001 / 10000000000000000) \<le> 11 / 5 * sqrt (1 / 1000)"
proof -
  have "sqrt (40000000000001 / 10000000000000000) \<le> sqrt ((11 / 5)\<^sup>2 * (1 / 1000))"
    by (rule real_sqrt_le_mono) (simp add: power2_eq_square)
  also have "\<dots> = 11 / 5 * sqrt (1 / 1000)"
    by (simp only: real_sqrt_mult real_sqrt_abs)
  finally show ?thesis .
qed

text \<open>
  C5 says that a sparse step whose indices cover every row gives what the dense step gives
  on the same per-row values. On a freshly built two-row variable, the sparse gradient that
  gives row 1 the value 1 and row 0 the value 2 (indices listed as 1, 0) and the dense
  gradient [2, 1] leave the same optimizer state, but the parameter's row 0 differs by more
  than 0.00004 (the whole step is about 0.001): line 143 pairs the previous gradient with the
  values by position, not by index.
\<close>

theorem sparse_permuted_rows_differs_from_dense:
  "\<exists>s1 v1 s2 v2.
     update_step heap sublist (build default_DiffGrad [dense_kernel])
         (IndexedSlices [1, 2] [1, 0]) dense_kernel
       = Inr (s1, v1)
     \<and> update_step heap sublist (build default_DiffGrad [dense_kernel]) (Dense [2, 1]) dense_kernel
         = Inr (s2, v2)
     \<and> s1 = s2
     \<and> 4 / 100000 < var_value v1 ! 0 - var_value v2 ! 0"
proof -
  have "0 < sqrt (1 / 1000 :: real)" and "0 < sqrt (40000000000001 / 10000000000000000 :: real)"
    by simp_all
  from friction_gap [OF this sqrt_gap] show ?thesis
    by (simp add: fixture_defs update_step_def weight_decay_step_def use_weight_decay_def
        gradient_step_def sparse_update_def dense_update_def assign_add_def assign_def
        scatter_add_def scatter_update_def friction_def tf_subtract_def tf_multiply_def
        tf_divide_def amsgrad_step_def assign_sub_def broadcast_op_def
        friction_coefficient_def)
qed


section \<open>Weight decay and its exclusion\<close>

text \<open>Where the search of the exclusion list returns, the decay is used exactly when the
  search found nothing and no pattern is found in the variable's name; a search that returns
  finds every variable whose identity is in the list; and the step is the gradient step on
  the value the decay left.\<close>

lemma list_contains_identity:
  "list_contains heap items variable = Inr found \<Longrightarrow> var_key variable \<in> set items \<Longrightarrow> found"
  by (induction items) (auto simp add: bind_result_Inr_iff split: if_splits)

lemma update_step_decay_first:
  assumes "slots_ok self variable i"
    and "use_weight_decay heap re_search self variable = Inr decay"
  shows "update_step heap re_search self grad variable
       = gradient_step self i grad variable
           (if decay
            then map (\<lambda>x. x - x * weight_decay self * learning_rate self) (var_value variable)
            else var_value variable)"
  using assms by (simp add: update_step_def slots_ok_def weight_decay_step_eq)

lemma zero_gradient_value:
  fixes x den :: "real list"
  assumes "length x = n" and "length den = n"
  shows "map2 (\<lambda>a b. a - b) x (map2 (\<lambda>a b. a / b) (replicate n 0) den) = x"
  using assms by (intro nth_equalityI) simp_all

lemma zero_gradient_step:
  assumes ok: "slots_ok self variable i"
    and zero: "momentums self ! i = replicate (length (var_value variable)) 0"
    and uwd: "use_weight_decay heap re_search self variable = Inr decay"
  shows "\<exists>self'. update_step heap re_search self
                   (Dense (replicate (length (var_value variable)) 0)) variable
           = Inr (self', variable\<lparr>var_value :=
                if decay
                then map (\<lambda>x. x - x * weight_decay self * learning_rate self) (var_value variable)
                else var_value variable\<rparr>)"
proof -
  have g: "length (replicate (length (var_value variable)) (0::real)) = length (var_value variable)"
    by simp
  show ?thesis
    unfolding update_step_dense_eq [OF ok g uwd] Let_def zero
    using ok by (simp add: zero_gradient_value slots_ok_def)
qed

lemma tensor_bool_raises: "2 \<le> length bs \<Longrightarrow> tensor_bool bs = Inl ValueError"
  by (cases bs; cases "tl bs") (auto simp add: tensor_bool_def)

lemma list_contains_raises:
  assumes "item \<noteq> var_key variable"
    and "length (heap item) = length (var_value variable)"
    and "2 \<le> length (var_value variable)"
  shows "list_contains heap (item # items) variable = Inl ValueError"
  using assms by (simp add: tf_equal_def tensor_bool_raises)

text \<open>A step on a variable of two rows or more raises whenever the exclusion list starts
  with another variable of the same shape.\<close>

lemma update_step_other_listed_raises:
  assumes "slots_ok self variable i"
    and "exclude_from_weight_decay_vars self = item # items"
    and "item \<noteq> var_key variable"
    and "length (heap item) = length (var_value variable)"
    and "2 \<le> length (var_value variable)"
  shows "update_step heap re_search self grad variable = Inl ValueError"
proof -
  have "list_contains heap (item # items) variable = Inl ValueError"
    using assms(3,4,5) by (rule list_contains_raises)
  then have "use_weight_decay heap re_search self variable = Inl ValueError"
    using assms(2) by (simp add: use_weight_decay_def)
  with assms(1) show ?thesis by (rule update_step_raises)
qed

lemma bias_excluded_by_name:
  "use_weight_decay heap sublist bias_excluded_DiffGrad bias = Inr False
   \<and> use_weight_decay heap sublist bias_excluded_DiffGrad dense_kernel = Inr True"
  by (simp add: use_weight_decay_def bias_excluded_DiffGrad_def exclude_from_weight_decay_def
      or_empty_def fixture_defs sublist_code)

text \<open>
  C9 says that the weight decay is skipped exactly when the variable's identity is in the
  exclusion list or a pattern is found in its name. The docstring of
  \<^verbatim>\<open>exclude_from_weight_decay\<close> says the same of the list (a list of variables to exclude).
  Line 103 searches the list with \<^verbatim>\<open>in\<close>, which after the identity test compares values
  with \<^verbatim>\<open>==\<close>. With the two-row kernel excluded, a step on another two-row variable, which
  the claim has decayed and updated, raises: the comparison has two entries and has no truth
  value. With the one-row bias of value 3 excluded and no pattern set, a step with a zero
  gradient on another one-row variable of value 3, whose identity is not in the list, leaves
  it at 3: its decay is skipped.
\<close>

theorem exclusion_list_compares_values:
  "update_step model_heap sublist kernel_excluded_DiffGrad (Dense [1 / 10, 1 / 10]) output_kernel
     = Inl ValueError
   \<and> var_key output_bias \<notin> set (exclude_from_weight_decay_vars bias_listed_DiffGrad)
   \<and> exclude_from_weight_decay_names bias_listed_DiffGrad = []
   \<and> use_weight_decay model_heap sublist bias_listed_DiffGrad output_bias = Inr False
   \<and> (\<exists>self'. update_step model_heap sublist bias_listed_DiffGrad (Dense [0]) output_bias
                 = Inr (self', output_bias))"
proof -
  have a: "update_step model_heap sublist kernel_excluded_DiffGrad (Dense [1 / 10, 1 / 10])
             output_kernel = Inl ValueError"
    by (simp add: kernel_excluded_DiffGrad_def exclude_from_weight_decay_def or_empty_def
        fixture_defs output_kernel_def model_heap_def update_step_def weight_decay_step_def
        use_weight_decay_def tf_equal_def tensor_bool_def)
  have b: "var_key output_bias \<notin> set (exclude_from_weight_decay_vars bias_listed_DiffGrad)"
    "exclude_from_weight_decay_names bias_listed_DiffGrad = []"
    by (simp_all add: bias_listed_DiffGrad_def exclude_from_weight_decay_def or_empty_def
        fixture_defs output_bias_def)
  have c: "use_weight_decay model_heap sublist bias_listed_DiffGrad output_bias = Inr False"
    by (simp add: bias_listed_DiffGrad_def exclude_from_weight_decay_def or_empty_def
        fixture_defs output_bias_def model_heap_def use_weight_decay_def tf_equal_def
        tensor_bool_def)
  have ok: "slots_ok bias_listed_DiffGrad output_bias 1"
    by (simp add: bias_listed_DiffGrad_def exclude_from_weight_decay_def or_empty_def
        fixture_defs output_bias_def slots_ok_def)
  have zero: "momentums bias_listed_DiffGrad ! 1 = replicate (length (var_value output_bias)) 0"
    by (simp add: bias_listed_DiffGrad_def exclude_from_weight_decay_def or_empty_def
        fixture_defs output_bias_def)
  from zero_gradient_step [OF ok zero c]
  have d: "\<exists>self'. update_step model_heap sublist bias_listed_DiffGrad (Dense [0]) output_bias
                 = Inr (self', output_bias)"
    by (simp add: output_bias_def)
  from a b c d show ?thesis by blast
qed

section \<open>What the sparse step does where it returns\<close>

text \<open>On a built variable a sparse step returns only when the gradient carries as many rows
  as the variable has, or one row; the previous gradient keeps every row the indices do not
  name; and with every row listed once in ascending order the sparse step is the dense step.\<close>

lemma sparse_step_returns_only_if:
  assumes ok: "slots_ok self variable i"
    and step: "update_step heap re_search self (IndexedSlices vals indices) variable = Inr (self', variable')"
  shows "length vals = length (var_value variable) \<or> length vals = 1"
proof -
  let ?n = "length (var_value variable)"
  from ok have p: "length (prev_gradients self ! i) = ?n" by (simp add: slots_ok_def)
  from update_step_Inr [OF ok step] obtain dfc where
    fr: "friction (prev_gradients self ! i) vals = Inr dfc" and ld: "length dfc = ?n"
    by (auto simp add: gradient_values_def)
  from fr obtain d where d: "tf_subtract (prev_gradients self ! i) vals = Inr d"
    and dfc: "dfc = map friction_coefficient d"
    by (auto simp add: friction_def bind_result_Inr_iff)
  from dfc ld have "length d = ?n" by simp
  with broadcast_op_length_cases [OF d [unfolded tf_subtract_def]] p
  show ?thesis by auto
qed

lemma scatter_untouched:
  "scatter f t ixs = Inr r \<Longrightarrow> int j \<notin> fst ` set ixs \<Longrightarrow> r ! j = t ! j"
proof (induction f t ixs rule: scatter.induct)
  case (1 f t)
  then show ?case by simp
next
  case (2 f t i x ixs)
  from "2.prems" have i: "0 \<le> i" "i < int (length t)"
    and rest: "scatter f (t[nat i := f (t ! nat i) x]) ixs = Inr r"
    and ne: "int j \<noteq> i" and nin: "int j \<notin> fst ` set ixs"
    by (auto split: if_splits)
  from "2.IH" [OF _ rest nin] i have "r ! j = t[nat i := f (t ! nat i) x] ! j" by simp
  moreover from ne i have "nat i \<noteq> j" by auto
  ultimately show ?case by simp
qed

lemma sparse_update_prev_gradient:
  assumes "sparse_update self m v p vals indices = Inr (m2, v2, dfc, p2)"
  shows "scatter_update p vals indices = Inr p2"
  using assms by (auto simp add: sparse_update_def bind_result_Inr_iff)

lemma sparse_step_untouched_rows:
  assumes ok: "slots_ok self variable i"
    and step: "update_step heap re_search self (IndexedSlices vals indices) variable = Inr (self', variable')"
    and j: "int j \<notin> set indices"
  shows "prev_gradients self' ! i ! j = prev_gradients self ! i ! j"
proof -
  let ?n = "length (var_value variable)"
  from ok have idx: "index_dict self (var_key variable) = Some i"
    and m: "i < length (momentums self)" "length (momentums self ! i) = ?n"
    and v: "i < length (velocities self)" "length (velocities self ! i) = ?n"
    and p: "i < length (prev_gradients self)" "length (prev_gradients self ! i) = ?n"
    and h: "amsgrad self \<longrightarrow> i < length (velocity_hats self) \<and> length (velocity_hats self ! i) = ?n"
    by (simp_all add: slots_ok_def)
  from step obtain x0 where wd: "weight_decay_step heap re_search self variable = Inr x0"
    and gs: "gradient_step self i (IndexedSlices vals indices) variable x0 = Inr (self', variable')"
    by (auto simp add: update_step_def idx bind_result_Inr_iff)
  have x: "length x0 = ?n" by (rule weight_decay_step_length [OF wd])
  from gradient_step_Inr [OF gs m v p h x] obtain m2 v2 dfc p2 where
    br: "sparse_update self (momentums self ! i) (velocities self ! i) (prev_gradients self ! i)
           vals indices = Inr (m2, v2, dfc, p2)"
    and pg: "prev_gradients self' = (prev_gradients self)[i := p2]"
    by auto
  from sparse_update_prev_gradient [OF br]
  have sc: "scatter (\<lambda>old x. x) (prev_gradients self ! i) (zip indices vals) = Inr p2"
    by (auto simp add: scatter_update_def split: if_splits)
  have "int j \<notin> fst ` set (zip indices vals)"
    using j by (auto dest: set_zip_leftD)
  from scatter_untouched [OF sc this] pg p(1) show ?thesis by simp
qed


lemma scatter_upt:
  "k + length xs = length t \<Longrightarrow>
     scatter f t (zip (map int [k..<length t]) xs) = Inr (take k t @ map2 f (drop k t) xs)"
proof (induction xs arbitrary: k t)
  case Nil
  then show ?case by simp
next
  case (Cons x xs)
  from Cons.prems have k: "k < length t" by simp
  let ?t = "t[k := f (t ! k) x]"
  have len: "Suc k + length xs = length ?t" using Cons.prems by simp
  have "scatter f t (zip (map int [k..<length t]) (x # xs))
      = scatter f ?t (zip (map int [Suc k..<length t]) xs)"
    using k by (simp add: upt_conv_Cons)
  also have "\<dots> = scatter f ?t (zip (map int [Suc k..<length ?t]) xs)" by simp
  also have "\<dots> = Inr (take (Suc k) ?t @ map2 f (drop (Suc k) ?t) xs)"
    by (rule Cons.IH [OF len])
  also have "take (Suc k) ?t = take k t @ [f (t ! k) x]"
    using k by (simp add: take_Suc_conv_app_nth)
  also have "drop (Suc k) ?t = drop (Suc k) t" by simp
  also have "(take k t @ [f (t ! k) x]) @ map2 f (drop (Suc k) t) xs
      = take k t @ map2 f (drop k t) (x # xs)"
    using k by (simp add: Cons_nth_drop_Suc [symmetric])
  finally show ?case .
qed

lemma scatter_all_rows:
  "length xs = length t \<Longrightarrow>
     scatter f t (zip (map int [0..<length t]) xs) = Inr (map2 f t xs)"
  using scatter_upt [of 0 xs t f] by simp

lemma sparse_update_all_rows:
  assumes m: "length m = n" and v: "length v = n" and p: "length p = n" and g: "length g = n"
  shows "sparse_update self m v p g (map int [0..<n]) = dense_update self m v p g"
proof -
  have m2: "map2 (\<lambda>old x. old + x) (map2 (\<lambda>a b. a + b) m (map (\<lambda>x. - x * (1 - beta_1 self)) m))
              (map (\<lambda>x. x * (1 - beta_1 self)) g)
      = map2 (\<lambda>a b. a + (b - a) * (1 - beta_1 self)) m g"
    using m g by (intro nth_equalityI) (simp_all add: algebra_simps)
  have v2: "map2 (\<lambda>old x. old + x) (map2 (\<lambda>a b. a + b) v (map (\<lambda>x. - x * (1 - beta_2 self)) v))
              (map (\<lambda>x. x * x * (1 - beta_2 self) + epsilon self) g)
      = map2 (\<lambda>a b. a + (b\<^sup>2 - a) * (1 - beta_2 self) + epsilon self) v g"
    using v g by (intro nth_equalityI) (simp_all add: algebra_simps power2_eq_square)
  have p2: "map2 (\<lambda>old x. x) p g = g"
    using p g by (intro nth_equalityI) simp_all
  have fr: "friction p g = Inr (map2 (\<lambda>a b. friction_coefficient (a - b)) p g)"
  proof -
    have "map friction_coefficient (map2 (\<lambda>a b. a - b) p g)
        = map2 (\<lambda>a b. friction_coefficient (a - b)) p g"
      using p g by (intro nth_equalityI) simp_all
    then show ?thesis
      using p g by (simp add: friction_def tf_subtract_def broadcast_op_same)
  qed
  have sm: "scatter_add (map2 (\<lambda>a b. a + b) m (map (\<lambda>x. - x * (1 - beta_1 self)) m))
              (map (\<lambda>x. x * (1 - beta_1 self)) g) (map int [0..<n])
      = Inr (map2 (\<lambda>a b. a + (b - a) * (1 - beta_1 self)) m g)"
    using scatter_all_rows [of "map (\<lambda>x. x * (1 - beta_1 self)) g"
        "map2 (\<lambda>a b. a + b) m (map (\<lambda>x. - x * (1 - beta_1 self)) m)" "\<lambda>old x. old + x"] m g m2
    by (simp add: scatter_add_def)
  have sv: "scatter_add (map2 (\<lambda>a b. a + b) v (map (\<lambda>x. - x * (1 - beta_2 self)) v))
              (map (\<lambda>x. x * x * (1 - beta_2 self) + epsilon self) g) (map int [0..<n])
      = Inr (map2 (\<lambda>a b. a + (b\<^sup>2 - a) * (1 - beta_2 self) + epsilon self) v g)"
    using scatter_all_rows [of "map (\<lambda>x. x * x * (1 - beta_2 self) + epsilon self) g"
        "map2 (\<lambda>a b. a + b) v (map (\<lambda>x. - x * (1 - beta_2 self)) v)" "\<lambda>old x. old + x"] v g v2
    by (simp add: scatter_add_def)
  have sp: "scatter_update p g (map int [0..<n]) = Inr g"
    using scatter_all_rows [of g p "\<lambda>old x. x"] p g p2 by (simp add: scatter_update_def)
  have "sparse_update self m v p g (map int [0..<n])
      = Inr (map2 (\<lambda>a b. a + (b - a) * (1 - beta_1 self)) m g,
          map2 (\<lambda>a b. a + (b\<^sup>2 - a) * (1 - beta_2 self) + epsilon self) v g,
          map2 (\<lambda>a b. friction_coefficient (a - b)) p g,
          g)"
  proof -
    have a1: "assign_add m (map (\<lambda>x. - x * (1 - beta_1 self)) m)
        = Inr (map2 (\<lambda>a b. a + b) m (map (\<lambda>x. - x * (1 - beta_1 self)) m))"
      by (simp add: assign_add_def)
    have a2: "assign_add v (map (\<lambda>x. - x * (1 - beta_2 self)) v)
        = Inr (map2 (\<lambda>a b. a + b) v (map (\<lambda>x. - x * (1 - beta_2 self)) v))"
      by (simp add: assign_add_def)
    show ?thesis
      by (simp only: sparse_update_def a1 a2 bind_result_Inr sm sv fr sp)
  qed
  also have "\<dots> = dense_update self m v p g"
    by (rule dense_update_eq [OF m v p g, symmetric])
  finally show ?thesis .
qed

lemma sparse_all_rows_in_order_eq_dense:
  assumes ok: "slots_ok self variable i" and g: "length g = length (var_value variable)"
  shows "update_step heap re_search self (IndexedSlices g (map int [0..<length g])) variable
       = update_step heap re_search self (Dense g) variable"
proof -
  from ok have idx: "index_dict self (var_key variable) = Some i"
    and m: "length (momentums self ! i) = length g"
    and v: "length (velocities self ! i) = length g"
    and p: "length (prev_gradients self ! i) = length g"
    by (simp_all add: slots_ok_def g)
  have "gradient_step self i (IndexedSlices g (map int [0..<length g])) variable
      = gradient_step self i (Dense g) variable"
    by (rule ext) (simp add: gradient_step_def sparse_update_all_rows [OF m v p refl])
  then show ?thesis by (simp add: update_step_def idx)
qed

section \<open>What build establishes\<close>

text \<open>On an optimizer not yet built, \<^verbatim>\<open>build\<close> on variables of distinct identities gives
  every variable of the list its slot, with zero state tensors of the variable's shape.\<close>

lemma fold_index_other:
  "key \<notin> var_key ` set var_list \<Longrightarrow>
     fold (\<lambda>(i, var) d. d(var_key var \<mapsto> i)) (enumerate k var_list) d key = d key"
  by (induction var_list arbitrary: k d) simp_all

lemma fold_index_nth:
  "distinct (map var_key var_list) \<Longrightarrow> j < length var_list \<Longrightarrow>
     fold (\<lambda>(i, var) d. d(var_key var \<mapsto> i)) (enumerate k var_list) d (var_key (var_list ! j))
       = Some (k + j)"
proof (induction var_list arbitrary: k d j)
  case Nil
  then show ?case by simp
next
  case (Cons v vs)
  show ?case
  proof (cases j)
    case 0
    from Cons.prems have "var_key v \<notin> var_key ` set vs" by simp
    from fold_index_other [OF this, of "Suc k" "d(var_key v \<mapsto> k)"] 0
    show ?thesis by (simp del: fun_upd_apply) simp
  next
    case (Suc j')
    with Cons.prems Cons.IH [of j' "Suc k" "d(var_key v \<mapsto> k)"] show ?thesis by simp
  qed
qed

lemma build_slots_ok:
  assumes nb: "\<not> built self" and d: "distinct (map var_key var_list)" and i: "i < length var_list"
  shows "slots_ok (build self var_list) (var_list ! i) i"
proof -
  let ?zeros = "map add_variable_from_reference var_list"
  have idx: "index_dict (build self var_list) = build_index_dict var_list"
    and m: "momentums (build self var_list) = ?zeros"
    and v: "velocities (build self var_list) = ?zeros"
    and p: "prev_gradients (build self var_list) = ?zeros"
    and h: "amsgrad (build self var_list) \<longrightarrow> velocity_hats (build self var_list) = ?zeros"
    using nb by (simp_all add: build_def Let_def)
  have k: "build_index_dict var_list (var_key (var_list ! i)) = Some i"
    using fold_index_nth [OF d i, of 0 Map.empty] by (simp only: build_index_dict_def add_0)
  have z: "length (?zeros ! i) = length (var_value (var_list ! i))"
    using i by (simp add: add_variable_from_reference_def)
  show ?thesis
    unfolding slots_ok_def idx m v p
    using k z i h by simp
qed

end
